theory Spec2Isabelle
  imports Main "HOL-Library.Sublist"
begin

section \<open>JavaScript values used by the session controller\<close>

text \<open>
  Strings are lists of characters. The characters of this model are the code points
  0 to 255, so the white space that \<^verbatim>\<open>String.prototype.trim\<close> removes is, in this
  range, TAB, LF, VT, FF, CR, SPACE and NBSP.
\<close>

definition is_whitespace :: "char \<Rightarrow> bool" where
  "is_whitespace c =
     (c = CHR 0x09 \<or> c = CHR 0x0A \<or> c = CHR 0x0B \<or> c = CHR 0x0C \<or> c = CHR 0x0D
      \<or> c = CHR 0x20 \<or> c = CHR 0xA0)"

definition trim :: "string \<Rightarrow> string" where
  "trim s = rev (dropWhile is_whitespace (rev (dropWhile is_whitespace s)))"

text \<open>\<^verbatim>\<open>s.includes(sub)\<close>: \<open>sub\<close> occurs in \<open>s\<close> as a contiguous run.\<close>

fun str_includes :: "string \<Rightarrow> string \<Rightarrow> bool" where
  "str_includes [] sub = (sub = [])"
| "str_includes (c # cs) sub = (prefix sub (c # cs) \<or> str_includes cs sub)"

definition startsWith :: "string \<Rightarrow> string \<Rightarrow> bool" where
  "startsWith s p = prefix p s"

text \<open>Truthiness of a \<^verbatim>\<open>string | null\<close>: \<^verbatim>\<open>null\<close> and the empty string are falsy.\<close>

definition truthy :: "string option \<Rightarrow> bool" where
  "truthy v = (case v of None \<Rightarrow> False | Some s \<Rightarrow> s \<noteq> [])"

text \<open>
  A value caught by \<^verbatim>\<open>catch (err)\<close>: an \<^verbatim>\<open>Error\<close> object with its message, or
  any other thrown value.
\<close>

datatype js_exn = ErrorObj string | NonError

text \<open>\<^verbatim>\<open>err instanceof Error ? err.message : fallback\<close>\<close>

fun message_of :: "js_exn \<Rightarrow> string \<Rightarrow> string" where
  "message_of (ErrorObj m) fallback = m"
| "message_of NonError fallback = fallback"

text \<open>A \<^verbatim>\<open>File\<close>: its name and its declared media type (\<^verbatim>\<open>file.type\<close>).\<close>

record jsfile =
  fname :: string
  ftype :: string

text \<open>The value \<^verbatim>\<open>generateImageWithPromptFromImage\<close> resolves to.\<close>

record gen_result =
  imageUrl :: string
  finalPrompt :: string

section \<open>The state of the App component\<close>

text \<open>The ten \<^verbatim>\<open>useState\<close> cells of \<^verbatim>\<open>App\<close>, with their initial values.\<close>

record app_state =
  apiKey :: string
  isKeySet :: bool
  apiKeyError :: "string option"
  isKeyValidating :: bool
  uploadedImageFile :: "jsfile option"
  uploadedImagePreview :: "string option"
  generatedImageUrl :: "string option"
  generatedPrompt :: "string option"
  isLoading :: bool
  error :: "string option"

definition initial_state :: app_state where
  "initial_state =
     \<lparr>apiKey = [], isKeySet = False, apiKeyError = None, isKeyValidating = False,
      uploadedImageFile = None, uploadedImagePreview = None, generatedImageUrl = None,
      generatedPrompt = None, isLoading = False, error = None\<rparr>"

text \<open>
  A suspended \<^verbatim>\<open>handleGenerate\<close>: it waits for \<^verbatim>\<open>fileToBase64\<close> or for
  \<^verbatim>\<open>generateImageWithPromptFromImage\<close>, and holds the file its closure captured.
\<close>

datatype suspended = AwaitEncode jsfile | AwaitGenerate jsfile

text \<open>
  What surrounds the component: the client slot of the service module, the object URLs
  the browser created and revoked, the calls made to the service, and the suspended
  handlers. The suspended \<^verbatim>\<open>handleApiKeySubmit\<close> calls hold the submitted key.
\<close>

record world =
  app :: app_state
  holder :: "string option"
  created :: "string list"
  revoked :: "string list"
  init_calls :: "string list"
  encode_calls :: "jsfile list"
  generate_calls :: "(string \<times> string) list"
  pending_init :: "string list"
  pending_gen :: "suspended list"

section \<open>The service module and the browser\<close>

text \<open>
  Modelled from the spec: the Credentialed Client Holder of \<^verbatim>\<open>services/GeminiService\<close>,
  a module that \<^verbatim>\<open>App\<close> imports and whose text is missing. The slot holds at most one
  client, bound to the credential it was validated with; \<open>isBound\<close> is a pure query;
  a successful \<open>initialize\<close> replaces the binding and a failed one leaves the slot
  as it was. Nothing else writes the slot: the generation gateway only reads it.
\<close>

definition isClientInitialized :: "string option \<Rightarrow> bool" where
  "isClientInitialized h = (h \<noteq> None)"

fun initializeUserProvidedClient_settled ::
  "string \<Rightarrow> js_exn option \<Rightarrow> string option \<Rightarrow> string option" where
  "initializeUserProvidedClient_settled k None h = Some k"
| "initializeUserProvidedClient_settled k (Some e) h = h"

text \<open>
  \<^verbatim>\<open>URL.createObjectURL\<close> returns a new \<^verbatim>\<open>blob:\<close> URL on every call; the \<open>n\<close>-th
  one is written here with \<open>n\<close> marks after the scheme.
\<close>

definition object_url :: "nat \<Rightarrow> string" where
  "object_url n = ''blob:'' @ replicate n (CHR ''u'')"

definition createObjectURL :: "world \<Rightarrow> string" where
  "createObjectURL w = object_url (length (created w))"

section \<open>The preview effect\<close>

text \<open>
  The cleanup of the effect that depends on \<^verbatim>\<open>uploadedImagePreview\<close>. It closes over
  the preview of the render that installed it.
\<close>

definition preview_cleanup :: "string option \<Rightarrow> world \<Rightarrow> world" where
  "preview_cleanup p w =
     (case p of
        None \<Rightarrow> w
      | Some u \<Rightarrow>
          if u \<noteq> [] \<and> startsWith u ''blob:'' then w\<lparr>revoked := revoked w @ [u]\<rparr> else w)"

text \<open>
  After a handler has run the component renders again. The effect is run again, its
  previous cleanup first, when its dependency differs from that of the render before.
\<close>

definition rerender :: "string option \<Rightarrow> world \<Rightarrow> world" where
  "rerender prev w =
     (if uploadedImagePreview (app w) = prev then w else preview_cleanup prev w)"

text \<open>Teardown of the component runs the cleanup of the installed effect.\<close>

definition unmount :: "world \<Rightarrow> world" where
  "unmount w = preview_cleanup (uploadedImagePreview (app w)) w"

text \<open>
  Mounting: the initial state, and the effect that sets \<^verbatim>\<open>isKeySet\<close> when the service
  already holds a client.
\<close>

definition mount :: "string option \<Rightarrow> world" where
  "mount h =
     \<lparr>app = (if isClientInitialized h then initial_state\<lparr>isKeySet := True\<rparr> else initial_state),
      holder = h, created = [], revoked = [], init_calls = [], encode_calls = [],
      generate_calls = [], pending_init = [], pending_gen = []\<rparr>"

section \<open>The handlers\<close>

definition remove_nth :: "nat \<Rightarrow> 'a list \<Rightarrow> 'a list" where
  "remove_nth i xs = take i xs @ drop (Suc i) xs"

subsection \<open>handleApiKeySubmit\<close>

text \<open>Up to the \<^verbatim>\<open>await\<close>.\<close>

definition handleApiKeySubmit :: "string \<Rightarrow> world \<Rightarrow> world" where
  "handleApiKeySubmit submittedKey w =
     (if trim submittedKey = [] then
        w\<lparr>app := (app w)\<lparr>apiKeyError := Some ''API Key cannot be empty.'', isKeySet := False\<rparr>\<rparr>
      else
        w\<lparr>app := (app w)\<lparr>isKeyValidating := True, apiKeyError := None\<rparr>,
          init_calls := init_calls w @ [submittedKey],
          pending_init := pending_init w @ [submittedKey]\<rparr>)"

text \<open>
  From the \<^verbatim>\<open>await\<close> on: \<open>outcome\<close> is \<open>None\<close> when the promise was fulfilled and
  the thrown value when it was rejected.
\<close>

definition handleApiKeySubmit_settled :: "string \<Rightarrow> js_exn option \<Rightarrow> app_state \<Rightarrow> app_state" where
  "handleApiKeySubmit_settled submittedKey outcome a =
     (case outcome of
        None \<Rightarrow>
          a\<lparr>apiKey := submittedKey, isKeySet := True, error := None, isKeyValidating := False\<rparr>
      | Some err \<Rightarrow>
          a\<lparr>apiKeyError :=
               Some (''Invalid API Key or setup failed: ''
                     @ message_of err ''An unknown error occurred.''
                     @ ''. Please check your key and try again.''),
            isKeySet := False, isKeyValidating := False\<rparr>)"

definition initDone :: "nat \<Rightarrow> js_exn option \<Rightarrow> world \<Rightarrow> world" where
  "initDone i outcome w =
     (if i < length (pending_init w) then
        w\<lparr>app := handleApiKeySubmit_settled (pending_init w ! i) outcome (app w),
          holder := initializeUserProvidedClient_settled (pending_init w ! i) outcome (holder w),
          pending_init := remove_nth i (pending_init w)\<rparr>
      else w)"

subsection \<open>handleImageUpload\<close>

definition handleImageUpload :: "jsfile \<Rightarrow> world \<Rightarrow> world" where
  "handleImageUpload file w =
     w\<lparr>app := (app w)\<lparr>uploadedImageFile := Some file, error := None,
                      generatedImageUrl := None, generatedPrompt := None,
                      uploadedImagePreview := Some (createObjectURL w)\<rparr>,
       created := created w @ [createObjectURL w]\<rparr>"

subsection \<open>handleGenerate\<close>

text \<open>Up to the first \<^verbatim>\<open>await\<close>: \<^verbatim>\<open>fileToBase64\<close> has been called.\<close>

definition handleGenerate :: "world \<Rightarrow> world" where
  "handleGenerate w =
     (case uploadedImageFile (app w) of
        None \<Rightarrow> w\<lparr>app := (app w)\<lparr>error := Some ''Please upload an image first.''\<rparr>\<rparr>
      | Some file \<Rightarrow>
          w\<lparr>app := (app w)\<lparr>isLoading := True, error := None,
                           generatedImageUrl := None, generatedPrompt := None\<rparr>,
            encode_calls := encode_calls w @ [file],
            pending_gen := pending_gen w @ [AwaitEncode file]\<rparr>)"

text \<open>The condition of the \<^verbatim>\<open>catch\<close> block on the message of the failure.\<close>

definition credential_related :: "string \<Rightarrow> bool" where
  "credential_related errorMessage =
     (str_includes errorMessage ''API Key'' \<or> str_includes errorMessage ''client is not initialized'')"

text \<open>The \<^verbatim>\<open>catch\<close> block followed by \<^verbatim>\<open>finally\<close>.\<close>

definition handleGenerate_catch :: "js_exn \<Rightarrow> app_state \<Rightarrow> app_state" where
  "handleGenerate_catch err a =
     (let errorMessage = message_of err ''An unknown error occurred during image generation.''
      in if credential_related errorMessage then
           a\<lparr>error := Some (''Generation Failed: API Key issue. '' @ errorMessage
                            @ ''. Please try setting your API key again.''),
             isKeySet := False, isLoading := False\<rparr>
         else
           a\<lparr>error := Some (''Generation Failed: '' @ errorMessage @ ''.''),
             isLoading := False\<rparr>)"

text \<open>The two assignments after the second \<^verbatim>\<open>await\<close>, followed by \<^verbatim>\<open>finally\<close>.\<close>

definition handleGenerate_result :: "gen_result \<Rightarrow> app_state \<Rightarrow> app_state" where
  "handleGenerate_result result a =
     a\<lparr>generatedImageUrl := Some (imageUrl result),
       generatedPrompt := Some (finalPrompt result), isLoading := False\<rparr>"

text \<open>
  \<^verbatim>\<open>fileToBase64\<close> settles: on a payload the remote call is made with the media type of
  the captured file, on a failure control passes to \<^verbatim>\<open>catch\<close>.
\<close>

definition encodeDone :: "nat \<Rightarrow> js_exn + string \<Rightarrow> world \<Rightarrow> world" where
  "encodeDone i outcome w =
     (if i < length (pending_gen w) then
        (case pending_gen w ! i of
           AwaitEncode file \<Rightarrow>
             (case outcome of
                Inr base64Image \<Rightarrow>
                  w\<lparr>generate_calls := generate_calls w @ [(base64Image, ftype file)],
                    pending_gen := (pending_gen w)[i := AwaitGenerate file]\<rparr>
              | Inl err \<Rightarrow>
                  w\<lparr>app := handleGenerate_catch err (app w),
                    pending_gen := remove_nth i (pending_gen w)\<rparr>)
         | AwaitGenerate file \<Rightarrow> w)
      else w)"

text \<open>\<^verbatim>\<open>generateImageWithPromptFromImage\<close> settles.\<close>

definition generateDone :: "nat \<Rightarrow> js_exn + gen_result \<Rightarrow> world \<Rightarrow> world" where
  "generateDone i outcome w =
     (if i < length (pending_gen w) then
        (case pending_gen w ! i of
           AwaitEncode file \<Rightarrow> w
         | AwaitGenerate file \<Rightarrow>
             (case outcome of
                Inr result \<Rightarrow>
                  w\<lparr>app := handleGenerate_result result (app w),
                    pending_gen := remove_nth i (pending_gen w)\<rparr>
              | Inl err \<Rightarrow>
                  w\<lparr>app := handleGenerate_catch err (app w),
                    pending_gen := remove_nth i (pending_gen w)\<rparr>))
      else w)"

subsection \<open>handleReselectImage and handleChangeApiKey\<close>

text \<open>
  \<^verbatim>\<open>handleReselectImage\<close> also empties the value of the file input when that element is
  in the document; the element holds no state of the session.
\<close>

definition handleReselectImage :: "world \<Rightarrow> world" where
  "handleReselectImage w =
     w\<lparr>app := (app w)\<lparr>uploadedImageFile := None, uploadedImagePreview := None,
                      generatedImageUrl := None, generatedPrompt := None,
                      error := None, isLoading := False\<rparr>\<rparr>"

definition handleChangeApiKey :: "world \<Rightarrow> world" where
  "handleChangeApiKey w =
     w\<lparr>app := (app w)\<lparr>isKeySet := False, apiKey := [], apiKeyError := None,
                      uploadedImageFile := None, uploadedImagePreview := None,
                      generatedImageUrl := None, generatedPrompt := None,
                      error := None\<rparr>\<rparr>"

section \<open>Events\<close>

text \<open>
  The actions of the session controller, each calling its handler, and the settling of
  the promises the handlers wait for. A promise is named by its position among the
  suspended handlers.
\<close>

datatype event =
    SubmitCredential string
  | SelectImage jsfile
  | StartGeneration
  | ReselectImage
  | ChangeCredential
  | InitDone nat "js_exn option"
  | EncodeDone nat "js_exn + string"
  | GenerateDone nat "js_exn + gen_result"

fun handler :: "event \<Rightarrow> world \<Rightarrow> world" where
  "handler (SubmitCredential k) w = handleApiKeySubmit k w"
| "handler (SelectImage f) w = handleImageUpload f w"
| "handler StartGeneration w = handleGenerate w"
| "handler ReselectImage w = handleReselectImage w"
| "handler ChangeCredential w = handleChangeApiKey w"
| "handler (InitDone i r) w = initDone i r w"
| "handler (EncodeDone i r) w = encodeDone i r w"
| "handler (GenerateDone i r) w = generateDone i r w"

text \<open>One event: the handler, then the render that follows it.\<close>

definition step :: "world \<Rightarrow> event \<Rightarrow> world" where
  "step w e = rerender (uploadedImagePreview (app w)) (handler e w)"

definition run :: "world \<Rightarrow> event list \<Rightarrow> world" where
  "run w es = foldl step w es"

subsection \<open>What the rendered page offers\<close>

text \<open>
  The key form is rendered while \<^verbatim>\<open>isKeySet\<close> is false and its \<^verbatim>\<open>handleSubmit\<close>
  calls the handler unless a validation is running. The page is rendered otherwise:
  the change-key button always, the upload widget while there is no preview, the two
  image buttons while there is one, both disabled while \<^verbatim>\<open>isLoading\<close>. Promises
  settle whenever they do.
\<close>

fun offered :: "event \<Rightarrow> app_state \<Rightarrow> bool" where
  "offered (SubmitCredential k) a = (\<not> isKeySet a \<and> \<not> isKeyValidating a)"
| "offered (SelectImage f) a = (isKeySet a \<and> \<not> truthy (uploadedImagePreview a))"
| "offered StartGeneration a = (isKeySet a \<and> truthy (uploadedImagePreview a) \<and> \<not> isLoading a)"
| "offered ReselectImage a = (isKeySet a \<and> truthy (uploadedImagePreview a) \<and> \<not> isLoading a)"
| "offered ChangeCredential a = isKeySet a"
| "offered (InitDone i r) a = True"
| "offered (EncodeDone i r) a = True"
| "offered (GenerateDone i r) a = True"

text \<open>An event on the rendered page: a control that is absent or disabled does nothing.\<close>

definition ui_step :: "world \<Rightarrow> event \<Rightarrow> world" where
  "ui_step w e = (if offered e (app w) then step w e else w)"

definition ui_run :: "world \<Rightarrow> event list \<Rightarrow> world" where
  "ui_run w es = foldl ui_step w es"

subsection \<open>What App renders\<close>



section \<open>The session phase\<close>

datatype phase = NeedsCredential | Ready | ImageSelected | Generating | Generated

text \<open>
  The source keeps no value for the phase of the session. The five phases are read off
  the conditions under which \<^verbatim>\<open>App\<close> renders the key form, the preview with its
  buttons, the spinner and the result, as a function of four facts: the key is set, an
  image is selected, a request is in flight, a result is present.
\<close>

definition phase_of :: "bool \<Rightarrow> bool \<Rightarrow> bool \<Rightarrow> bool \<Rightarrow> phase" where
  "phase_of bound selected generating result =
     (if \<not> bound then NeedsCredential
      else if generating then Generating
      else if result then Generated
      else if selected then ImageSelected
      else Ready)"

definition result_present :: "app_state \<Rightarrow> bool" where
  "result_present a = (truthy (generatedImageUrl a) \<and> truthy (generatedPrompt a))"

definition session_phase :: "app_state \<Rightarrow> phase" where
  "session_phase a =
     phase_of (isKeySet a) (truthy (uploadedImagePreview a)) (isLoading a) (result_present a)"

section \<open>Notions used by the properties\<close>

text \<open>The preview the component holds, as a list of at most one URL.\<close>

definition held :: "app_state \<Rightarrow> string list" where
  "held a = (case uploadedImagePreview a of None \<Rightarrow> [] | Some u \<Rightarrow> [u])"

text \<open>
  The object URLs created so far are the first ones of the browser's sequence, and each
  of them is either revoked or the preview now held, in the order of creation.
\<close>

definition urls_ok :: "world \<Rightarrow> bool" where
  "urls_ok w = (map object_url [0..<length (created w)] = created w
                \<and> revoked w @ held (app w) = created w)"

text \<open>
  The cells of the state that go together: the file and its preview, the two parts of
  the result; a preview is never the empty string, and no result is stored while the
  loading flag is set.
\<close>

definition cells_ok :: "app_state \<Rightarrow> bool" where
  "cells_ok a =
     ((uploadedImageFile a = None) = (uploadedImagePreview a = None)
      \<and> uploadedImagePreview a \<noteq> Some []
      \<and> (generatedImageUrl a = None) = (generatedPrompt a = None)
      \<and> (if isLoading a then generatedImageUrl a = None else True))"

text \<open>The loading flag counts the suspended generations.\<close>

definition one_in_flight :: "world \<Rightarrow> bool" where
  "one_in_flight w = (length (pending_gen w) = (if isLoading (app w) then 1 else 0))"

text \<open>
  The \<open>i\<close>-th suspended generation fails with \<open>err\<close>, at whichever of its two
  \<^verbatim>\<open>await\<close>s it stands.
\<close>

definition fail_attempt :: "nat \<Rightarrow> js_exn \<Rightarrow> world \<Rightarrow> world" where
  "fail_attempt i err w =
     (case pending_gen w ! i of
        AwaitEncode f \<Rightarrow> step w (EncodeDone i (Inl err))
      | AwaitGenerate f \<Rightarrow> step w (GenerateDone i (Inl err)))"

subsection \<open>Sample sessions\<close>

definition img1 :: jsfile where
  "img1 = \<lparr>fname = ''img1.png'', ftype = ''image/png''\<rparr>"

definition img2 :: jsfile where
  "img2 = \<lparr>fname = ''img2.jpg'', ftype = ''image/jpeg''\<rparr>"

definition result1 :: gen_result where
  "result1 = \<lparr>imageUrl = ''u1'', finalPrompt = ''p1''\<rparr>"

definition result2 :: gen_result where
  "result2 = \<lparr>imageUrl = ''u2'', finalPrompt = ''p2''\<rparr>"

text \<open>A key has been submitted and accepted.\<close>

definition ready_world :: world where
  "ready_world = run (mount None) [SubmitCredential ''good-key'', InitDone 0 None]"

text \<open>An image is selected and its generation waits for the encoder.\<close>

definition encoding_world :: world where
  "encoding_world = run ready_world [SelectImage img1, StartGeneration]"

text \<open>The same generation, now waiting for the remote call.\<close>

definition generating_world :: world where
  "generating_world = run encoding_world [EncodeDone 0 (Inr ''aW1nMQ=='')]"

text \<open>
  On the rendered page: while the generation is in flight the key is changed and
  entered again, which clears the image and leaves the call running.
\<close>

definition rekeyed_world :: world where
  "rekeyed_world =
     ui_run ready_world
       [SelectImage img1, StartGeneration, ChangeCredential,
        SubmitCredential ''good-key'', InitDone 0 None]"

section \<open>Basic facts\<close>

lemma dropWhile_all: "(\<forall>x\<in>set (dropWhile P s). P x) \<longleftrightarrow> (\<forall>x\<in>set s. P x)"
proof
  assume a: "\<forall>x\<in>set (dropWhile P s). P x"
  have "dropWhile P s = []"
  proof (rule ccontr)
    assume n: "dropWhile P s \<noteq> []"
    then have "\<not> P (hd (dropWhile P s))" by (rule hd_dropWhile)
    moreover from n have "hd (dropWhile P s) \<in> set (dropWhile P s)" by simp
    ultimately show False using a by blast
  qed
  then show "\<forall>x\<in>set s. P x" using dropWhile_eq_Nil_conv [of P s] by simp
next
  assume "\<forall>x\<in>set s. P x"
  then show "\<forall>x\<in>set (dropWhile P s). P x" by (blast dest: set_dropWhileD)
qed

lemma trim_Nil_iff: "trim s = [] \<longleftrightarrow> list_all is_whitespace s"
  by (simp add: trim_def list_all_iff dropWhile_all)


lemma phase_simps:
  "session_phase a = NeedsCredential \<longleftrightarrow> \<not> isKeySet a"
  "session_phase a = Generating \<longleftrightarrow> isKeySet a \<and> isLoading a"
  "session_phase a = Generated \<longleftrightarrow> isKeySet a \<and> \<not> isLoading a \<and> result_present a"
  "session_phase a = ImageSelected \<longleftrightarrow>
     isKeySet a \<and> \<not> isLoading a \<and> \<not> result_present a \<and> truthy (uploadedImagePreview a)"
  "session_phase a = Ready \<longleftrightarrow>
     isKeySet a \<and> \<not> isLoading a \<and> \<not> result_present a \<and> \<not> truthy (uploadedImagePreview a)"
  by (simp_all add: session_phase_def phase_of_def)

lemma preview_cleanup_proj:
  "app (preview_cleanup p w) = app w"
  "holder (preview_cleanup p w) = holder w"
  "created (preview_cleanup p w) = created w"
  "init_calls (preview_cleanup p w) = init_calls w"
  "encode_calls (preview_cleanup p w) = encode_calls w"
  "generate_calls (preview_cleanup p w) = generate_calls w"
  "pending_init (preview_cleanup p w) = pending_init w"
  "pending_gen (preview_cleanup p w) = pending_gen w"
  by (simp_all add: preview_cleanup_def split: option.split)

lemma rerender_proj:
  "app (rerender p w) = app w"
  "holder (rerender p w) = holder w"
  "created (rerender p w) = created w"
  "init_calls (rerender p w) = init_calls w"
  "encode_calls (rerender p w) = encode_calls w"
  "generate_calls (rerender p w) = generate_calls w"
  "pending_init (rerender p w) = pending_init w"
  "pending_gen (rerender p w) = pending_gen w"
  by (simp_all add: rerender_def preview_cleanup_proj)

text \<open>The render after a handler touches nothing but the log of revoked URLs.\<close>

lemma step_proj:
  "app (step w e) = app (handler e w)"
  "holder (step w e) = holder (handler e w)"
  "created (step w e) = created (handler e w)"
  "init_calls (step w e) = init_calls (handler e w)"
  "encode_calls (step w e) = encode_calls (handler e w)"
  "generate_calls (step w e) = generate_calls (handler e w)"
  "pending_init (step w e) = pending_init (handler e w)"
  "pending_gen (step w e) = pending_gen (handler e w)"
  by (simp_all add: step_def rerender_proj)

lemma revoked_step_same:
  "uploadedImagePreview (app (handler e w)) = uploadedImagePreview (app w) \<Longrightarrow>
   revoked (step w e) = revoked (handler e w)"
  by (simp add: step_def rerender_def)

lemma run_Nil: "run w [] = w"
  by (simp add: run_def)

lemma run_snoc: "run w (es @ [e]) = step (run w es) e"
  by (simp add: run_def)

lemma ui_run_Nil: "ui_run w [] = w"
  by (simp add: ui_run_def)

lemma ui_run_snoc: "ui_run w (es @ [e]) = ui_step (ui_run w es) e"
  by (simp add: ui_run_def)

lemma remove_nth_last2: "remove_nth (Suc (length xs)) (xs @ [x, y]) = xs @ [x]"
  by (simp add: remove_nth_def)

lemma remove_nth_single: "length xs = Suc 0 \<Longrightarrow> remove_nth 0 xs = []"
  by (cases xs) (simp_all add: remove_nth_def)

lemma catch_isKeySet: "isKeySet (handleGenerate_catch err a) \<Longrightarrow> isKeySet a"
  by (simp add: handleGenerate_catch_def Let_def split: if_splits)

lemma catch_isLoading: "isLoading (handleGenerate_catch err a) = False"
  by (simp add: handleGenerate_catch_def Let_def)

lemma catch_preview: "uploadedImagePreview (handleGenerate_catch err a) = uploadedImagePreview a"
  by (simp add: handleGenerate_catch_def Let_def)

lemma fail_attempt_app:
  "i < length (pending_gen w) \<Longrightarrow> app (fail_attempt i err w) = handleGenerate_catch err (app w)"
  by (simp add: fail_attempt_def step_proj encodeDone_def generateDone_def split: suspended.split)

lemma fail_attempt_proj:
  "holder (fail_attempt i err w) = holder w"
  "pending_init (fail_attempt i err w) = pending_init w"
  "init_calls (fail_attempt i err w) = init_calls w"
  by (simp_all add: fail_attempt_def step_proj encodeDone_def generateDone_def
      split: suspended.split)

section \<open>A set key means a bound client\<close>

lemma step_bound:
  assumes "isKeySet (app w) \<Longrightarrow> holder w \<noteq> None"
    and "isKeySet (app (step w e))"
  shows "holder (step w e) \<noteq> None"
proof (cases e)
  case (SubmitCredential k)
  with assms show ?thesis
    by (simp add: step_proj handleApiKeySubmit_def split: if_splits)
next
  case (SelectImage f)
  with assms show ?thesis by (simp add: step_proj handleImageUpload_def)
next
  case StartGeneration
  with assms show ?thesis
    by (simp add: step_proj handleGenerate_def split: option.splits)
next
  case ReselectImage
  with assms show ?thesis by (simp add: step_proj handleReselectImage_def)
next
  case ChangeCredential
  with assms show ?thesis by (simp add: step_proj handleChangeApiKey_def)
next
  case (InitDone i r)
  with assms show ?thesis
    by (cases r)
      (simp_all add: step_proj initDone_def handleApiKeySubmit_settled_def split: if_splits)
next
  case (EncodeDone i r)
  with assms show ?thesis
    by (auto simp add: step_proj encodeDone_def split: if_splits suspended.splits sum.splits
        dest: catch_isKeySet)
next
  case (GenerateDone i r)
  with assms show ?thesis
    by (auto simp add: step_proj generateDone_def handleGenerate_result_def
        split: if_splits suspended.splits sum.splits dest: catch_isKeySet)
qed

lemma mount_bound: "isKeySet (app (mount h)) \<Longrightarrow> holder (mount h) \<noteq> None"
  by (simp add: mount_def isClientInitialized_def initial_state_def split: if_splits)

lemma run_bound: "isKeySet (app (run (mount h) es)) \<Longrightarrow> holder (run (mount h) es) \<noteq> None"
proof (induction es rule: rev_induct)
  case Nil
  then show ?case by (simp add: run_Nil mount_bound)
next
  case (snoc e es)
  then show ?case unfolding run_snoc by (rule step_bound)
qed

section \<open>Object URLs\<close>

lemma object_url_inj: "object_url m = object_url n \<Longrightarrow> m = n"
proof -
  assume "object_url m = object_url n"
  then have "length (object_url m) = length (object_url n)" by simp
  then show "m = n" by (simp add: object_url_def)
qed

lemma object_url_blob: "object_url n \<noteq> [] \<and> startsWith (object_url n) ''blob:''"
  by (simp add: object_url_def startsWith_def)

lemma distinct_urls: "distinct (map object_url [0..<n])"
  by (simp add: distinct_map inj_on_def) (blast dest: object_url_inj)

lemma urls_ok_mem:
  assumes "urls_ok w" "u \<in> set (created w)"
  shows "\<exists>j<length (created w). u = object_url j"
proof -
  from assms have "u \<in> set (map object_url [0..<length (created w)])"
    unfolding urls_ok_def by metis
  then show ?thesis by auto
qed

lemma held_created:
  assumes "urls_ok w" "uploadedImagePreview (app w) = Some u"
  shows "\<exists>j<length (created w). u = object_url j"
proof -
  from assms have e: "revoked w @ [u] = created w" by (simp add: urls_ok_def held_def)
  have "u \<in> set (revoked w @ [u])" by simp
  then have "u \<in> set (created w)" by (simp only: e)
  with assms(1) show ?thesis by (rule urls_ok_mem)
qed

lemma cleanup_url:
  "revoked (preview_cleanup (Some (object_url j)) w) = revoked w @ [object_url j]"
  using object_url_blob [of j] by (simp add: preview_cleanup_def)

text \<open>A handler that leaves the preview alone releases nothing.\<close>

lemma step_keeps_preview:
  assumes "urls_ok w"
    and "uploadedImagePreview (app (handler e w)) = uploadedImagePreview (app w)"
    and "created (handler e w) = created w"
    and "revoked (handler e w) = revoked w"
  shows "urls_ok (step w e)"
  using assms by (simp add: urls_ok_def step_proj held_def revoked_step_same)

text \<open>A handler that clears the preview releases the one that was held.\<close>

lemma step_clears_preview:
  assumes ok: "urls_ok w"
    and "uploadedImagePreview (app (handler e w)) = None"
    and "created (handler e w) = created w"
    and "revoked (handler e w) = revoked w"
  shows "urls_ok (step w e)"
proof (cases "uploadedImagePreview (app w)")
  case None
  with assms show ?thesis by (simp add: step_keeps_preview)
next
  case (Some u)
  with ok obtain j where j: "u = object_url j" by (auto dest: held_created)
  have "revoked (step w e) = revoked w @ [u]"
    using assms Some by (simp add: step_def rerender_def j cleanup_url)
  with assms Some show ?thesis
    by (simp add: urls_ok_def step_proj held_def)
qed

text \<open>A new selection releases the preview it replaces and holds the new one.\<close>

lemma step_select:
  assumes ok: "urls_ok w"
  shows "urls_ok (step w (SelectImage f))"
proof -
  let ?n = "length (created w)"
  have c: "created (step w (SelectImage f)) = created w @ [object_url ?n]"
    by (simp add: step_proj handleImageUpload_def createObjectURL_def)
  have p: "uploadedImagePreview (app (step w (SelectImage f))) = Some (object_url ?n)"
    by (simp add: step_proj handleImageUpload_def createObjectURL_def)
  have m: "map object_url [0..<length (created (step w (SelectImage f)))]
             = created (step w (SelectImage f))"
    using ok by (simp add: c urls_ok_def)
  have r: "revoked (step w (SelectImage f)) = revoked w @ held (app w)"
  proof (cases "uploadedImagePreview (app w)")
    case None
    then show ?thesis
      by (simp add: step_def rerender_def handleImageUpload_def held_def preview_cleanup_def)
  next
    case (Some u)
    with ok obtain j where j: "j < ?n" "u = object_url j" by (auto dest: held_created)
    then have "object_url ?n \<noteq> object_url j" by (auto dest: object_url_inj)
    then show ?thesis
      using Some j
      by (simp add: step_def rerender_def handleImageUpload_def held_def createObjectURL_def
          cleanup_url)
  qed
  from ok have "revoked w @ held (app w) = created w" by (simp add: urls_ok_def)
  with c p m r show ?thesis by (simp add: urls_ok_def held_def)
qed

lemma step_urls_ok:
  assumes ok: "urls_ok w"
  shows "urls_ok (step w e)"
proof (cases e)
  case (SubmitCredential k)
  with ok show ?thesis
    by (intro step_keeps_preview) (simp_all add: handleApiKeySubmit_def)
next
  case (SelectImage f)
  with ok show ?thesis by (simp add: step_select)
next
  case StartGeneration
  with ok show ?thesis
    by (intro step_keeps_preview) (simp_all add: handleGenerate_def split: option.split)
next
  case ReselectImage
  with ok show ?thesis
    by (intro step_clears_preview) (simp_all add: handleReselectImage_def)
next
  case ChangeCredential
  with ok show ?thesis
    by (intro step_clears_preview) (simp_all add: handleChangeApiKey_def)
next
  case (InitDone i r)
  with ok show ?thesis
    by (intro step_keeps_preview)
      (simp_all add: initDone_def handleApiKeySubmit_settled_def split: option.split)
next
  case (EncodeDone i r)
  with ok show ?thesis
    by (intro step_keeps_preview)
      (simp_all add: encodeDone_def catch_preview split: suspended.split sum.split)
next
  case (GenerateDone i r)
  with ok show ?thesis
    by (intro step_keeps_preview)
      (simp_all add: generateDone_def catch_preview handleGenerate_result_def
        split: suspended.split sum.split)
qed

lemma mount_urls_ok: "urls_ok (mount h)"
  by (simp add: urls_ok_def mount_def held_def initial_state_def)

lemma run_urls_ok: "urls_ok (run (mount h) es)"
  by (induction es rule: rev_induct) (simp_all add: run_Nil run_snoc mount_urls_ok step_urls_ok)

lemma unmount_releases:
  assumes ok: "urls_ok w"
  shows "revoked (unmount w) = created w"
proof (cases "uploadedImagePreview (app w)")
  case None
  with ok show ?thesis by (simp add: unmount_def preview_cleanup_def urls_ok_def held_def)
next
  case (Some u)
  with ok obtain j where j: "u = object_url j" by (auto dest: held_created)
  with ok Some show ?thesis by (simp add: unmount_def cleanup_url urls_ok_def held_def)
qed

section \<open>One generation at a time on the rendered page\<close>

lemma ui_step_one_in_flight:
  assumes ok: "one_in_flight w"
  shows "one_in_flight (ui_step w e)"
proof (cases "offered e (app w)")
  case False
  with ok show ?thesis by (simp add: ui_step_def)
next
  case True
  show ?thesis
  proof (cases e)
    case (SubmitCredential k)
    with ok True show ?thesis
      by (simp add: ui_step_def one_in_flight_def step_proj handleApiKeySubmit_def
          split: if_splits)
  next
    case (SelectImage f)
    with ok True show ?thesis
      by (simp add: ui_step_def one_in_flight_def step_proj handleImageUpload_def
          split: if_splits)
  next
    case StartGeneration
    with ok True show ?thesis
      by (simp add: ui_step_def one_in_flight_def step_proj handleGenerate_def
          split: option.split if_splits)
  next
    case ReselectImage
    with ok True show ?thesis
      by (simp add: ui_step_def one_in_flight_def step_proj handleReselectImage_def
          split: if_splits)
  next
    case ChangeCredential
    with ok True show ?thesis
      by (simp add: ui_step_def one_in_flight_def step_proj handleChangeApiKey_def
          split: if_splits)
  next
    case (InitDone i r)
    with ok True show ?thesis
      by (simp add: ui_step_def one_in_flight_def step_proj initDone_def
          handleApiKeySubmit_settled_def split: option.split if_splits)
  next
    case (EncodeDone i r)
    with ok True show ?thesis
      by (simp add: ui_step_def one_in_flight_def step_proj encodeDone_def catch_isLoading
          remove_nth_single split: suspended.split sum.split if_splits)
  next
    case (GenerateDone i r)
    with ok True show ?thesis
      by (simp add: ui_step_def one_in_flight_def step_proj generateDone_def catch_isLoading
          handleGenerate_result_def remove_nth_single split: suspended.split sum.split if_splits)
  qed
qed

lemma mount_one_in_flight: "one_in_flight (mount h)"
  by (simp add: one_in_flight_def mount_def initial_state_def)

lemma ui_run_one_in_flight: "one_in_flight (ui_run (mount h) es)"
  by (induction es rule: rev_induct)
    (simp_all add: ui_run_Nil ui_run_snoc mount_one_in_flight ui_step_one_in_flight)

section \<open>Cells that go together\<close>

lemma catch_cells:
  "uploadedImageFile (handleGenerate_catch err a) = uploadedImageFile a"
  "generatedImageUrl (handleGenerate_catch err a) = generatedImageUrl a"
  "generatedPrompt (handleGenerate_catch err a) = generatedPrompt a"
  "apiKey (handleGenerate_catch err a) = apiKey a"
  by (simp_all add: handleGenerate_catch_def Let_def)

lemma step_cells_ok:
  assumes ok: "cells_ok (app w)"
  shows "cells_ok (app (step w e))"
proof (cases e)
  case (SubmitCredential k)
  with ok show ?thesis
    by (auto simp add: step_proj handleApiKeySubmit_def cells_ok_def split: if_splits)
next
  case (SelectImage f)
  with ok show ?thesis
    by (auto simp add: step_proj handleImageUpload_def cells_ok_def createObjectURL_def object_url_def split: if_splits)
next
  case StartGeneration
  with ok show ?thesis
    by (auto simp add: step_proj handleGenerate_def cells_ok_def split: option.split if_splits)
next
  case ReselectImage
  with ok show ?thesis by (auto simp add: step_proj handleReselectImage_def cells_ok_def split: if_splits)
next
  case ChangeCredential
  with ok show ?thesis by (auto simp add: step_proj handleChangeApiKey_def cells_ok_def split: if_splits)
next
  case (InitDone i r)
  with ok show ?thesis
    by (auto simp add: step_proj initDone_def handleApiKeySubmit_settled_def cells_ok_def
        split: option.split if_splits)
next
  case (EncodeDone i r)
  with ok show ?thesis
    by (auto simp add: step_proj encodeDone_def cells_ok_def catch_cells catch_preview
        catch_isLoading split: suspended.split sum.split if_splits)
next
  case (GenerateDone i r)
  with ok show ?thesis
    by (auto simp add: step_proj generateDone_def cells_ok_def catch_cells catch_preview
        catch_isLoading handleGenerate_result_def split: suspended.split sum.split if_splits)
qed

lemma mount_cells_ok: "cells_ok (app (mount h))"
  by (simp add: cells_ok_def mount_def initial_state_def)

lemma run_cells_ok: "cells_ok (app (run (mount h) es))"
  by (induction es rule: rev_induct) (simp_all add: run_Nil run_snoc mount_cells_ok step_cells_ok)

text \<open>A run of page events is a run of the events that were offered.\<close>

lemma ui_run_is_run: "\<exists>es'. ui_run w es = run w es'"
proof (induction es rule: rev_induct)
  case Nil
  have "ui_run w [] = run w []" by (simp add: ui_run_Nil run_Nil)
  then show ?case by blast
next
  case (snoc e es)
  then obtain es' where r: "ui_run w es = run w es'" by blast
  show ?case
  proof (cases "offered e (app (ui_run w es))")
    case True
    then have "ui_run w (es @ [e]) = run w (es' @ [e])"
      by (simp add: ui_run_snoc ui_step_def run_snoc r)
    then show ?thesis by blast
  next
    case False
    then have "ui_run w (es @ [e]) = run w es'"
      by (simp add: ui_run_snoc ui_step_def r)
    then show ?thesis by blast
  qed
qed

lemma cells_truthy_preview:
  "cells_ok a \<Longrightarrow> truthy (uploadedImagePreview a) = (uploadedImageFile a \<noteq> None)"
  by (cases "uploadedImagePreview a") (auto simp add: cells_ok_def truthy_def)

lemma cells_no_result: "cells_ok a \<Longrightarrow> isLoading a \<Longrightarrow> \<not> result_present a"
  by (simp add: cells_ok_def result_present_def truthy_def)

section \<open>Stale responses\<close>

text \<open>
  C1, as the code has it. \<^verbatim>\<open>handleGenerate\<close> resumes without looking at the state it
  resumes in: the result of a call is stored whichever image is selected by then. From
  any state, after \<open>selectImage(A)\<close>, \<open>startGeneration()\<close>, \<open>selectImage(B)\<close>,
  \<open>startGeneration()\<close>, with both images encoded, when the second call settles with
  \<open>r2\<close> and the first call settles after it with \<open>r1\<close>, the stored result is
  \<open>r1\<close> and the selected image is \<open>B\<close>: the call that settles last wins.
\<close>

theorem C1_last_settled_call_wins:
  "generatedImageUrl (app (run w
      [SelectImage A, StartGeneration, SelectImage B, StartGeneration,
       EncodeDone (length (pending_gen w)) (Inr a64),
       EncodeDone (Suc (length (pending_gen w))) (Inr b64),
       GenerateDone (Suc (length (pending_gen w))) (Inr r2),
       GenerateDone (length (pending_gen w)) (Inr r1)])) = Some (imageUrl r1)
   \<and> generatedPrompt (app (run w
      [SelectImage A, StartGeneration, SelectImage B, StartGeneration,
       EncodeDone (length (pending_gen w)) (Inr a64),
       EncodeDone (Suc (length (pending_gen w))) (Inr b64),
       GenerateDone (Suc (length (pending_gen w))) (Inr r2),
       GenerateDone (length (pending_gen w)) (Inr r1)])) = Some (finalPrompt r1)
   \<and> uploadedImageFile (app (run w
      [SelectImage A, StartGeneration, SelectImage B, StartGeneration,
       EncodeDone (length (pending_gen w)) (Inr a64),
       EncodeDone (Suc (length (pending_gen w))) (Inr b64),
       GenerateDone (Suc (length (pending_gen w))) (Inr r2),
       GenerateDone (length (pending_gen w)) (Inr r1)])) = Some B"
proof -
  define n where "n = length (pending_gen w)"
  define w1 where "w1 = step w (SelectImage A)"
  define w2 where "w2 = step w1 StartGeneration"
  define w3 where "w3 = step w2 (SelectImage B)"
  define w4 where "w4 = step w3 StartGeneration"
  define w5 where "w5 = step w4 (EncodeDone n (Inr a64))"
  define w6 where "w6 = step w5 (EncodeDone (Suc n) (Inr b64))"
  define w7 where "w7 = step w6 (GenerateDone (Suc n) (Inr r2))"
  define w8 where "w8 = step w7 (GenerateDone n (Inr r1))"
  have p1: "pending_gen w1 = pending_gen w" and f1: "uploadedImageFile (app w1) = Some A"
    by (simp_all add: w1_def step_proj handleImageUpload_def)
  have p2: "pending_gen w2 = pending_gen w @ [AwaitEncode A]"
    by (simp add: w2_def step_proj handleGenerate_def f1 p1)
  have p3: "pending_gen w3 = pending_gen w @ [AwaitEncode A]"
    and f3: "uploadedImageFile (app w3) = Some B"
    by (simp_all add: w3_def step_proj handleImageUpload_def p2)
  have p4: "pending_gen w4 = pending_gen w @ [AwaitEncode A, AwaitEncode B]"
    and f4: "uploadedImageFile (app w4) = Some B"
    by (simp_all add: w4_def step_proj handleGenerate_def f3 p3)
  have p5: "pending_gen w5 = pending_gen w @ [AwaitGenerate A, AwaitEncode B]"
    and f5: "uploadedImageFile (app w5) = Some B"
    by (simp_all add: w5_def step_proj encodeDone_def p4 f4 n_def)
  have p6: "pending_gen w6 = pending_gen w @ [AwaitGenerate A, AwaitGenerate B]"
    and f6: "uploadedImageFile (app w6) = Some B"
    by (simp_all add: w6_def step_proj encodeDone_def p5 f5 n_def nth_append list_update_append)
  have p7: "pending_gen w7 = pending_gen w @ [AwaitGenerate A]"
    and f7: "uploadedImageFile (app w7) = Some B"
    by (simp_all add: w7_def step_proj generateDone_def p6 f6 n_def nth_append
        remove_nth_last2 handleGenerate_result_def)
  have r8: "app w8 = handleGenerate_result r1 (app w7)"
    by (simp add: w8_def step_proj generateDone_def p7 n_def)
  have run8: "run w [SelectImage A, StartGeneration, SelectImage B, StartGeneration,
       EncodeDone (length (pending_gen w)) (Inr a64),
       EncodeDone (Suc (length (pending_gen w))) (Inr b64),
       GenerateDone (Suc (length (pending_gen w))) (Inr r2),
       GenerateDone (length (pending_gen w)) (Inr r1)] = w8"
    by (simp add: run_def w8_def w7_def w6_def w5_def w4_def w3_def w2_def w1_def n_def)
  show ?thesis
    by (simp add: run8 r8 handleGenerate_result_def f7)
qed

text \<open>
  The sequence of C1 on a session with an accepted key: the first call settles after
  the second, and the stored result is the first call's, not the second's.
\<close>

theorem C1_stale_result_counterexample:
  "generatedImageUrl (app (run ready_world
      [SelectImage img1, StartGeneration, SelectImage img2, StartGeneration,
       EncodeDone 0 (Inr ''aW1nMQ==''), EncodeDone 1 (Inr ''aW1nMg==''),
       GenerateDone 1 (Inr result2), GenerateDone 0 (Inr result1)])) = Some (imageUrl result1)
   \<and> generatedImageUrl (app (run ready_world
      [SelectImage img1, StartGeneration, SelectImage img2, StartGeneration,
       EncodeDone 0 (Inr ''aW1nMQ==''), EncodeDone 1 (Inr ''aW1nMg==''),
       GenerateDone 1 (Inr result2), GenerateDone 0 (Inr result1)])) \<noteq> Some (imageUrl result2)
   \<and> generatedPrompt (app (run ready_world
      [SelectImage img1, StartGeneration, SelectImage img2, StartGeneration,
       EncodeDone 0 (Inr ''aW1nMQ==''), EncodeDone 1 (Inr ''aW1nMg==''),
       GenerateDone 1 (Inr result2), GenerateDone 0 (Inr result1)])) \<noteq> Some (finalPrompt result2)
   \<and> uploadedImageFile (app (run ready_world
      [SelectImage img1, StartGeneration, SelectImage img2, StartGeneration,
       EncodeDone 0 (Inr ''aW1nMQ==''), EncodeDone 1 (Inr ''aW1nMg==''),
       GenerateDone 1 (Inr result2), GenerateDone 0 (Inr result1)])) = Some img2"
  by code_simp

text \<open>
  On the rendered page the second generation cannot be started while the first is in
  flight, but a newer image can still be selected: the key is changed and entered
  again, which clears the image and leaves the call running. The result of the call
  made for the first image is then stored and shown beside the second image.
\<close>

lemma stale_result_beside_newer_image:
  "generatedImageUrl (app (ui_run ready_world
      [SelectImage img1, StartGeneration, ChangeCredential, SubmitCredential ''good-key'',
       InitDone 0 None, SelectImage img2, EncodeDone 0 (Inr ''aW1nMQ==''),
       GenerateDone 0 (Inr result1)])) = Some (imageUrl result1)
   \<and> uploadedImageFile (app (ui_run ready_world
      [SelectImage img1, StartGeneration, ChangeCredential, SubmitCredential ''good-key'',
       InitDone 0 None, SelectImage img2, EncodeDone 0 (Inr ''aW1nMQ==''),
       GenerateDone 0 (Inr result1)])) = Some img2
   \<and> session_phase (app (ui_run ready_world
      [SelectImage img1, StartGeneration, ChangeCredential, SubmitCredential ''good-key'',
       InitDone 0 None, SelectImage img2, EncodeDone 0 (Inr ''aW1nMQ==''),
       GenerateDone 0 (Inr result1)])) = Generated"
  by code_simp

section \<open>Changing the credential\<close>

text \<open>
  C2, as the code has it. From every state \<^verbatim>\<open>handleChangeApiKey\<close> leaves the session
  in phase \<open>NeedsCredential\<close> with the key string empty and the selected image, the
  preview, the generation result and both error messages cleared. It makes no call to
  the service, so the client slot of the service is what it was before: a client that
  was bound stays bound.
\<close>

theorem C2_change_credential:
  "session_phase (app (step w ChangeCredential)) = NeedsCredential
   \<and> isKeySet (app (step w ChangeCredential)) = False
   \<and> apiKey (app (step w ChangeCredential)) = []
   \<and> uploadedImageFile (app (step w ChangeCredential)) = None
   \<and> uploadedImagePreview (app (step w ChangeCredential)) = None
   \<and> generatedImageUrl (app (step w ChangeCredential)) = None
   \<and> generatedPrompt (app (step w ChangeCredential)) = None
   \<and> error (app (step w ChangeCredential)) = None
   \<and> apiKeyError (app (step w ChangeCredential)) = None
   \<and> holder (step w ChangeCredential) = holder w
   \<and> isClientInitialized (holder (step w ChangeCredential)) = isClientInitialized (holder w)"
  by (simp add: step_proj handleChangeApiKey_def phase_simps)

text \<open>
  After a key was accepted, changing the credential leaves the service reporting a
  bound client; so it does when the component was mounted over a service that already
  held one.
\<close>

theorem C2_holder_still_bound_counterexample:
  "session_phase (app (step ready_world ChangeCredential)) = NeedsCredential
   \<and> isClientInitialized (holder (step ready_world ChangeCredential))
   \<and> isClientInitialized (holder (step (mount (Some ''good-key'')) ChangeCredential))"
  by code_simp

section \<open>The phase is derived\<close>




section \<open>Failed generations\<close>

text \<open>
  The catch block on a credential-related failure, from any state in \<open>Generating\<close>
  that has an image and no result.
\<close>

lemma credential_failure_general:
  assumes "i < length (pending_gen w)"
    and "session_phase (app w) = Generating"
    and "uploadedImageFile (app w) = Some f"
    and "truthy (uploadedImagePreview (app w))"
    and "\<not> result_present (app w)"
    and "credential_related (message_of err ''An unknown error occurred during image generation.'')"
    and "trim k \<noteq> []"
  shows "session_phase (app (fail_attempt i err w)) = NeedsCredential
     \<and> \<not> isKeySet (app (fail_attempt i err w))
     \<and> uploadedImageFile (app (fail_attempt i err w)) = Some f
     \<and> uploadedImagePreview (app (fail_attempt i err w)) = uploadedImagePreview (app w)
     \<and> session_phase (app (step (step (fail_attempt i err w) (SubmitCredential k))
                              (InitDone (length (pending_init w)) None))) = ImageSelected
     \<and> uploadedImageFile (app (step (step (fail_attempt i err w) (SubmitCredential k))
                              (InitDone (length (pending_init w)) None))) = Some f"
  using assms
  by (simp add: fail_attempt_app fail_attempt_proj handleGenerate_catch_def Let_def phase_simps
      result_present_def step_proj handleApiKeySubmit_def initDone_def
      handleApiKeySubmit_settled_def)

text \<open>
  C4, as the code has it. After any sequence of actions and settled promises, a
  suspended generation fails with a credential-related message while the session is in
  phase \<open>Generating\<close> with a file selected. The session goes to \<open>NeedsCredential\<close>
  with the key flag cleared, so that a key has to be entered again; the client of the
  service is not unbound, it stays as it was, bound. The selected file and its preview
  stay in the state: when a key that is not blank is then submitted and accepted, the
  session is in phase \<open>ImageSelected\<close> with the same file.
\<close>

theorem C4_credential_rejected_keeps_image:
  assumes w: "w = run (mount h) es"
    and i: "i < length (pending_gen w)"
    and g: "session_phase (app w) = Generating"
    and f: "uploadedImageFile (app w) = Some f"
    and c: "credential_related (message_of err ''An unknown error occurred during image generation.'')"
    and k: "trim k \<noteq> []"
  shows "session_phase (app (fail_attempt i err w)) = NeedsCredential
     \<and> \<not> isKeySet (app (fail_attempt i err w))
     \<and> holder (fail_attempt i err w) = holder w
     \<and> isClientInitialized (holder (fail_attempt i err w))
     \<and> uploadedImageFile (app (fail_attempt i err w)) = Some f
     \<and> uploadedImagePreview (app (fail_attempt i err w)) = uploadedImagePreview (app w)
     \<and> session_phase (app (step (step (fail_attempt i err w) (SubmitCredential k))
                              (InitDone (length (pending_init w)) None))) = ImageSelected
     \<and> uploadedImageFile (app (step (step (fail_attempt i err w) (SubmitCredential k))
                              (InitDone (length (pending_init w)) None))) = Some f"
proof -
  have ok: "cells_ok (app w)" unfolding w by (rule run_cells_ok)
  from g have ks: "isKeySet (app w)" and ld: "isLoading (app w)" by (simp_all add: phase_simps)
  from ok f have p: "truthy (uploadedImagePreview (app w))" by (simp add: cells_truthy_preview)
  from ok ld have r: "\<not> result_present (app w)" by (rule cells_no_result)
  from ks have b: "isClientInitialized (holder w)"
    unfolding w isClientInitialized_def by (rule run_bound)
  have h: "holder (fail_attempt i err w) = holder w" by (simp add: fail_attempt_proj)
  from credential_failure_general [OF i g f p r c k] b h show ?thesis by simp
qed

theorem C4_credential_rejected_witness:
  "generating_world = run (mount None)
      [SubmitCredential ''good-key'', InitDone 0 None, SelectImage img1, StartGeneration,
       EncodeDone 0 (Inr ''aW1nMQ=='')]
   \<and> 0 < length (pending_gen generating_world)
   \<and> session_phase (app generating_world) = Generating
   \<and> uploadedImageFile (app generating_world) = Some img1
   \<and> credential_related (message_of (ErrorObj ''API Key not valid.'')
         ''An unknown error occurred during image generation.'')
   \<and> trim ''new-key'' \<noteq> []
   \<and> session_phase (app (fail_attempt 0 (ErrorObj ''API Key not valid.'') generating_world))
       = NeedsCredential
   \<and> isClientInitialized (holder (fail_attempt 0 (ErrorObj ''API Key not valid.'') generating_world))
   \<and> uploadedImageFile (app (fail_attempt 0 (ErrorObj ''API Key not valid.'') generating_world))
       = Some img1
   \<and> session_phase (app (step (step (fail_attempt 0 (ErrorObj ''API Key not valid.'')
                                       generating_world) (SubmitCredential ''new-key''))
                              (InitDone (length (pending_init generating_world)) None)))
       = ImageSelected"
proof -
  have h0: "generating_world = run (mount None)
      [SubmitCredential ''good-key'', InitDone 0 None, SelectImage img1, StartGeneration,
       EncodeDone 0 (Inr ''aW1nMQ=='')]" by code_simp
  have h1: "0 < length (pending_gen generating_world)" by code_simp
  have h2: "session_phase (app generating_world) = Generating" by code_simp
  have h3: "uploadedImageFile (app generating_world) = Some img1" by code_simp
  have h6: "credential_related (message_of (ErrorObj ''API Key not valid.'')
         ''An unknown error occurred during image generation.'')" by code_simp
  have h7: "trim ''new-key'' \<noteq> []" by code_simp
  show ?thesis
    using h0 h1 h2 h3 h6 h7 C4_credential_rejected_keeps_image [OF h0 h1 h2 h3 h6 h7]
    by blast
qed

text \<open>
  A credential-related failure of the generation in flight: the session is in
  \<open>NeedsCredential\<close> and the service still reports a bound client.
\<close>

theorem C4_client_still_bound_counterexample:
  "session_phase (app generating_world) = Generating
   \<and> credential_related (message_of (ErrorObj ''API Key not valid.'')
         ''An unknown error occurred during image generation.'')
   \<and> session_phase (app (fail_attempt 0 (ErrorObj ''API Key not valid.'') generating_world))
       = NeedsCredential
   \<and> isClientInitialized (holder (fail_attempt 0 (ErrorObj ''API Key not valid.'') generating_world))"
  by code_simp

text \<open>
  C6, as the code has it. After any sequence of actions and settled promises, the
  \<^verbatim>\<open>catch\<close> block of \<^verbatim>\<open>handleGenerate\<close> takes its credential branch exactly when the
  message of the failure contains \<^verbatim>\<open>API Key\<close> or \<^verbatim>\<open>client is not initialized\<close>. On
  that branch the key flag is cleared and the session is in \<open>NeedsCredential\<close>; the
  client of the service is not unbound on either branch. On every other failure the
  key, the key flag, the file and the preview are as before and the error message is
  set; a session that was in \<open>Generating\<close> is back in \<open>ImageSelected\<close> when a file
  is selected, and in \<open>Ready\<close> when the image was cleared while the call was in
  flight.
\<close>

theorem C6_failure_routing:
  assumes w: "w = run (mount h) es"
    and i: "i < length (pending_gen w)"
  shows "(isKeySet (app w) \<longrightarrow>
            isKeySet (app (fail_attempt i err w)) =
              (\<not> credential_related
                   (message_of err ''An unknown error occurred during image generation.'')))
       \<and> holder (fail_attempt i err w) = holder w
       \<and> (isKeySet (app w) \<longrightarrow> isClientInitialized (holder (fail_attempt i err w)))
       \<and> (credential_related (message_of err ''An unknown error occurred during image generation.'') \<longrightarrow>
            session_phase (app (fail_attempt i err w)) = NeedsCredential
            \<and> \<not> isKeySet (app (fail_attempt i err w))
            \<and> error (app (fail_attempt i err w)) =
                Some (''Generation Failed: API Key issue. ''
                      @ message_of err ''An unknown error occurred during image generation.''
                      @ ''. Please try setting your API key again.''))
       \<and> (\<not> credential_related (message_of err ''An unknown error occurred during image generation.'') \<longrightarrow>
            isKeySet (app (fail_attempt i err w)) = isKeySet (app w)
            \<and> apiKey (app (fail_attempt i err w)) = apiKey (app w)
            \<and> uploadedImageFile (app (fail_attempt i err w)) = uploadedImageFile (app w)
            \<and> uploadedImagePreview (app (fail_attempt i err w)) = uploadedImagePreview (app w)
            \<and> error (app (fail_attempt i err w)) =
                Some (''Generation Failed: ''
                      @ message_of err ''An unknown error occurred during image generation.'' @ ''.'')
            \<and> (session_phase (app w) = Generating \<longrightarrow>
                 session_phase (app (fail_attempt i err w))
                   = (if uploadedImageFile (app w) = None then Ready else ImageSelected)))"
proof -
  have ok: "cells_ok (app w)" unfolding w by (rule run_cells_ok)
  have b: "isClientInitialized (holder w)" if "isKeySet (app w)"
    using that unfolding w isClientInitialized_def by (rule run_bound)
  have h: "holder (fail_attempt i err w) = holder w" by (simp add: fail_attempt_proj)
  have r: "\<not> result_present (app w)" if "isLoading (app w)"
    using ok that by (rule cells_no_result)
  have p: "truthy (uploadedImagePreview (app w)) = (uploadedImageFile (app w) \<noteq> None)"
    using ok by (rule cells_truthy_preview)
  show ?thesis
    using i b r p
    by (auto simp add: fail_attempt_app h handleGenerate_catch_def Let_def phase_simps
        result_present_def)
qed

theorem C6_failure_routing_witness:
  "generating_world = run (mount None)
      [SubmitCredential ''good-key'', InitDone 0 None, SelectImage img1, StartGeneration,
       EncodeDone 0 (Inr ''aW1nMQ=='')]
   \<and> 0 < length (pending_gen generating_world)
   \<and> isKeySet (app generating_world)
   \<and> session_phase (app generating_world) = Generating
   \<and> uploadedImageFile (app generating_world) \<noteq> None
   \<and> credential_related (message_of (ErrorObj ''API Key not valid.'')
         ''An unknown error occurred during image generation.'')
   \<and> session_phase (app (fail_attempt 0 (ErrorObj ''API Key not valid.'') generating_world))
       = NeedsCredential
   \<and> isClientInitialized (holder (fail_attempt 0 (ErrorObj ''API Key not valid.'') generating_world))
   \<and> \<not> credential_related (message_of (ErrorObj ''quota exceeded'')
         ''An unknown error occurred during image generation.'')
   \<and> session_phase (app (fail_attempt 0 (ErrorObj ''quota exceeded'') generating_world))
       = ImageSelected
   \<and> isKeySet (app (fail_attempt 0 (ErrorObj ''quota exceeded'') generating_world))
   \<and> rekeyed_world = run (mount None)
      [SubmitCredential ''good-key'', InitDone 0 None, SelectImage img1, StartGeneration,
       ChangeCredential, SubmitCredential ''good-key'', InitDone 0 None]
   \<and> 0 < length (pending_gen rekeyed_world)
   \<and> session_phase (app rekeyed_world) = Generating
   \<and> uploadedImageFile (app rekeyed_world) = None
   \<and> session_phase (app (fail_attempt 0 (ErrorObj ''quota exceeded'') rekeyed_world)) = Ready"
proof -
  have h0: "generating_world = run (mount None)
      [SubmitCredential ''good-key'', InitDone 0 None, SelectImage img1, StartGeneration,
       EncodeDone 0 (Inr ''aW1nMQ=='')]" by code_simp
  have h1: "0 < length (pending_gen generating_world)" by code_simp
  have h2: "isKeySet (app generating_world)" by code_simp
  have h3: "session_phase (app generating_world) = Generating" by code_simp
  have h4: "uploadedImageFile (app generating_world) \<noteq> None" by code_simp
  have h6: "credential_related (message_of (ErrorObj ''API Key not valid.'')
         ''An unknown error occurred during image generation.'')" by code_simp
  have h7: "\<not> credential_related (message_of (ErrorObj ''quota exceeded'')
         ''An unknown error occurred during image generation.'')" by code_simp
  have k0: "rekeyed_world = run (mount None)
      [SubmitCredential ''good-key'', InitDone 0 None, SelectImage img1, StartGeneration,
       ChangeCredential, SubmitCredential ''good-key'', InitDone 0 None]" by code_simp
  have k1: "0 < length (pending_gen rekeyed_world)" by code_simp
  have k2: "session_phase (app rekeyed_world) = Generating" by code_simp
  have k3: "uploadedImageFile (app rekeyed_world) = None" by code_simp
  note a = C6_failure_routing [OF h0 h1, of "ErrorObj ''API Key not valid.''"]
  note b = C6_failure_routing [OF h0 h1, of "ErrorObj ''quota exceeded''"]
  note c = C6_failure_routing [OF k0 k1, of "ErrorObj ''quota exceeded''"]
  from a h2 h6 have a1:
    "session_phase (app (fail_attempt 0 (ErrorObj ''API Key not valid.'') generating_world))
       = NeedsCredential"
    "isClientInitialized (holder (fail_attempt 0 (ErrorObj ''API Key not valid.'') generating_world))"
    by blast+
  from b h3 h7 have
    "session_phase (app (fail_attempt 0 (ErrorObj ''quota exceeded'') generating_world))
       = (if uploadedImageFile (app generating_world) = None then Ready else ImageSelected)"
    by blast
  with h4 have b1:
    "session_phase (app (fail_attempt 0 (ErrorObj ''quota exceeded'') generating_world))
       = ImageSelected"
    by simp
  from b h2 h7 have b2:
    "isKeySet (app (fail_attempt 0 (ErrorObj ''quota exceeded'') generating_world))"
    by blast
  from c k2 h7 have
    "session_phase (app (fail_attempt 0 (ErrorObj ''quota exceeded'') rekeyed_world))
       = (if uploadedImageFile (app rekeyed_world) = None then Ready else ImageSelected)"
    by blast
  with k3 have c1:
    "session_phase (app (fail_attempt 0 (ErrorObj ''quota exceeded'') rekeyed_world)) = Ready"
    by simp
  show ?thesis
    using h0 h1 h2 h3 h4 h6 h7 k0 k1 k2 k3 a1 b1 b2 c1 by blast
qed

text \<open>
  The client stays bound after a credential-related failure; and on the rendered page,
  after the key was changed and entered again while the call was in flight, a failure
  that is not credential-related leaves the session in \<open>Ready\<close>.
\<close>

theorem C6_failure_routing_counterexample:
  "credential_related (message_of (ErrorObj ''API Key not valid.'')
         ''An unknown error occurred during image generation.'')
   \<and> session_phase (app (fail_attempt 0 (ErrorObj ''API Key not valid.'') generating_world))
       = NeedsCredential
   \<and> isClientInitialized (holder (fail_attempt 0 (ErrorObj ''API Key not valid.'') generating_world))
   \<and> session_phase (app rekeyed_world) = Generating
   \<and> \<not> credential_related (message_of (ErrorObj ''quota exceeded'')
         ''An unknown error occurred during image generation.'')
   \<and> ui_step rekeyed_world (EncodeDone 0 (Inl (ErrorObj ''quota exceeded'')))
       = fail_attempt 0 (ErrorObj ''quota exceeded'') rekeyed_world
   \<and> session_phase (app (fail_attempt 0 (ErrorObj ''quota exceeded'') rekeyed_world)) = Ready
   \<and> session_phase (app (fail_attempt 0 (ErrorObj ''quota exceeded'') rekeyed_world))
       \<noteq> ImageSelected"
  by code_simp

section \<open>Starting a generation\<close>

text \<open>
  C5, as the code has it. The guard is on the rendered page, not in the handler: the
  Generate button is disabled while \<^verbatim>\<open>isLoading\<close>. After every sequence of events on
  the rendered page at most one generation is suspended, and while one is suspended the
  loading flag is set and a click on Generate does nothing: no encoding, no remote call,
  the state as it was.
\<close>

theorem C5_one_generation_on_page:
  "length (pending_gen (ui_run (mount h) es)) \<le> 1
   \<and> (pending_gen (ui_run (mount h) es) \<noteq> [] \<longrightarrow>
        isLoading (app (ui_run (mount h) es))
        \<and> ui_step (ui_run (mount h) es) StartGeneration = ui_run (mount h) es)"
proof -
  have ok: "one_in_flight (ui_run (mount h) es)" by (rule ui_run_one_in_flight)
  then have a: "length (pending_gen (ui_run (mount h) es)) \<le> 1"
    by (simp add: one_in_flight_def split: if_splits)
  have b: "isLoading (app (ui_run (mount h) es))" if "pending_gen (ui_run (mount h) es) \<noteq> []"
    using ok that by (simp add: one_in_flight_def split: if_splits)
  have c: "ui_step (ui_run (mount h) es) StartGeneration = ui_run (mount h) es"
    if "pending_gen (ui_run (mount h) es) \<noteq> []"
    using b [OF that] by (simp add: ui_step_def)
  from a b c show ?thesis by blast
qed

theorem C5_one_generation_on_page_witness:
  "pending_gen (ui_run (mount None)
      [SubmitCredential ''good-key'', InitDone 0 None, SelectImage img1, StartGeneration]) \<noteq> []
   \<and> length (pending_gen (ui_run (mount None)
      [SubmitCredential ''good-key'', InitDone 0 None, SelectImage img1, StartGeneration])) \<le> 1
   \<and> isLoading (app (ui_run (mount None)
      [SubmitCredential ''good-key'', InitDone 0 None, SelectImage img1, StartGeneration]))
   \<and> ui_step (ui_run (mount None)
      [SubmitCredential ''good-key'', InitDone 0 None, SelectImage img1, StartGeneration])
        StartGeneration
     = ui_run (mount None)
      [SubmitCredential ''good-key'', InitDone 0 None, SelectImage img1, StartGeneration]"
proof -
  have h: "pending_gen (ui_run (mount None)
      [SubmitCredential ''good-key'', InitDone 0 None, SelectImage img1, StartGeneration]) \<noteq> []"
    by code_simp
  show ?thesis
    using h C5_one_generation_on_page [of None
      "[SubmitCredential ''good-key'', InitDone 0 None, SelectImage img1, StartGeneration]"]
    by blast
qed

text \<open>
  \<^verbatim>\<open>handleGenerate\<close> itself has no guard on the loading flag: called while the session
  is in phase \<open>Generating\<close> it changes the state and calls the encoder a second time.
\<close>

theorem C5_handler_unguarded_counterexample:
  "session_phase (app encoding_world) = Generating
   \<and> step encoding_world StartGeneration \<noteq> encoding_world
   \<and> length (encode_calls encoding_world) = 1
   \<and> length (encode_calls (step encoding_world StartGeneration)) = 2
   \<and> length (pending_gen (step encoding_world StartGeneration)) = 2"
  by code_simp

text \<open>
  C10. When no file is selected \<^verbatim>\<open>handleGenerate\<close> sets the error message to
  \<^verbatim>\<open>Please upload an image first.\<close> and returns: nothing else in the state changes,
  the encoder and the remote call are not called, and no generation is suspended.
\<close>

theorem C10_generate_without_image:
  assumes "uploadedImageFile (app w) = None"
  shows "step w StartGeneration
           = w\<lparr>app := (app w)\<lparr>error := Some ''Please upload an image first.''\<rparr>\<rparr>
    \<and> error (app (step w StartGeneration)) = Some ''Please upload an image first.''
    \<and> isLoading (app (step w StartGeneration)) = isLoading (app w)
    \<and> uploadedImageFile (app (step w StartGeneration)) = None
    \<and> uploadedImagePreview (app (step w StartGeneration)) = uploadedImagePreview (app w)
    \<and> generatedImageUrl (app (step w StartGeneration)) = generatedImageUrl (app w)
    \<and> generatedPrompt (app (step w StartGeneration)) = generatedPrompt (app w)
    \<and> apiKey (app (step w StartGeneration)) = apiKey (app w)
    \<and> isKeySet (app (step w StartGeneration)) = isKeySet (app w)
    \<and> holder (step w StartGeneration) = holder w
    \<and> encode_calls (step w StartGeneration) = encode_calls w
    \<and> generate_calls (step w StartGeneration) = generate_calls w
    \<and> pending_gen (step w StartGeneration) = pending_gen w"
  using assms by (simp add: step_def handleGenerate_def rerender_def)

theorem C10_generate_without_image_witness:
  "uploadedImageFile (app ready_world) = None
   \<and> error (app (step ready_world StartGeneration)) = Some ''Please upload an image first.''
   \<and> isLoading (app (step ready_world StartGeneration)) = isLoading (app ready_world)
   \<and> encode_calls (step ready_world StartGeneration) = encode_calls ready_world
   \<and> pending_gen (step ready_world StartGeneration) = pending_gen ready_world"
proof -
  have h: "uploadedImageFile (app ready_world) = None" by code_simp
  show ?thesis using h C10_generate_without_image [OF h] by blast
qed

section \<open>Submitting a credential\<close>

text \<open>
  C7. A key that is empty or made of white space only is turned down by
  \<^verbatim>\<open>handleApiKeySubmit\<close> before anything is called: the key error is
  \<^verbatim>\<open>API Key cannot be empty.\<close>, the session is in \<open>NeedsCredential\<close>, and the service
  is not called (no call to \<^verbatim>\<open>initializeUserProvidedClient\<close>, no validation suspended,
  the client slot as before).
\<close>

theorem C7_blank_credential_rejected:
  assumes "list_all is_whitespace key"
  shows "step w (SubmitCredential key) =
           w\<lparr>app := (app w)\<lparr>apiKeyError := Some ''API Key cannot be empty.'',
                            isKeySet := False\<rparr>\<rparr>
         \<and> session_phase (app (step w (SubmitCredential key))) = NeedsCredential
         \<and> apiKeyError (app (step w (SubmitCredential key))) = Some ''API Key cannot be empty.''
         \<and> init_calls (step w (SubmitCredential key)) = init_calls w
         \<and> pending_init (step w (SubmitCredential key)) = pending_init w
         \<and> holder (step w (SubmitCredential key)) = holder w"
  using assms
  by (simp add: step_def handleApiKeySubmit_def trim_Nil_iff rerender_def phase_simps)

theorem C7_blank_credential_witness:
  "list_all is_whitespace [CHR 0x20, CHR 0x09]
   \<and> list_all is_whitespace []
   \<and> session_phase (app (step (mount None) (SubmitCredential [CHR 0x20, CHR 0x09])))
       = NeedsCredential
   \<and> apiKeyError (app (step (mount None) (SubmitCredential [CHR 0x20, CHR 0x09])))
       = Some ''API Key cannot be empty.''
   \<and> init_calls (step (mount None) (SubmitCredential [CHR 0x20, CHR 0x09]))
       = init_calls (mount None)
   \<and> apiKeyError (app (step (mount None) (SubmitCredential [])))
       = Some ''API Key cannot be empty.''
   \<and> init_calls (step (mount None) (SubmitCredential [])) = init_calls (mount None)"
proof -
  have h: "list_all is_whitespace [CHR 0x20, CHR 0x09]" by code_simp
  have e: "list_all is_whitespace []" by simp
  show ?thesis
    using h e C7_blank_credential_rejected [OF h, of "mount None"]
      C7_blank_credential_rejected [OF e, of "mount None"]
    by blast
qed

section \<open>Previews\<close>

text \<open>
  C8. After every sequence of actions and settled promises, the URLs revoked so far
  followed by the preview held now are the URLs created, in the order of creation and
  without a repetition: every preview that was replaced or cleared has been released
  once, none twice, and only the held one is not released. Teardown releases the held
  one, after which the revoked URLs are the created ones. So the number of releases is
  the number of previews created less the one still held.
\<close>

theorem C8_previews_released_once:
  "revoked (run (mount h) es) @ held (app (run (mount h) es)) = created (run (mount h) es)
   \<and> distinct (created (run (mount h) es))
   \<and> length (revoked (run (mount h) es)) + length (held (app (run (mount h) es)))
       = length (created (run (mount h) es))
   \<and> revoked (unmount (run (mount h) es)) = created (run (mount h) es)"
proof -
  have ok: "urls_ok (run (mount h) es)" by (rule run_urls_ok)
  then have a: "revoked (run (mount h) es) @ held (app (run (mount h) es))
      = created (run (mount h) es)"
    by (simp add: urls_ok_def)
  from ok have "map object_url [0..<length (created (run (mount h) es))]
      = created (run (mount h) es)"
    by (simp add: urls_ok_def)
  then have d: "distinct (created (run (mount h) es))"
    using distinct_urls by metis
  from a have l: "length (revoked (run (mount h) es)) + length (held (app (run (mount h) es)))
      = length (created (run (mount h) es))"
    by (metis length_append)
  show ?thesis using a d l unmount_releases [OF ok] by simp
qed

text \<open>
  Three selections, a reselection and a change of key in between: two previews were
  replaced and one cleared, three were released, and teardown releases nothing more.
\<close>

theorem C8_previews_released_once_witness:
  "created (run ready_world
      [SelectImage img1, SelectImage img2, ReselectImage, SelectImage img1, StartGeneration])
     = [''blob:'', ''blob:u'', ''blob:uu'']
   \<and> revoked (run ready_world
      [SelectImage img1, SelectImage img2, ReselectImage, SelectImage img1, StartGeneration])
     = [''blob:'', ''blob:u'']
   \<and> revoked (unmount (run ready_world
      [SelectImage img1, SelectImage img2, ReselectImage, SelectImage img1, StartGeneration]))
     = [''blob:'', ''blob:u'', ''blob:uu'']
   \<and> revoked (unmount (run (mount None)
      [SubmitCredential ''good-key'', InitDone 0 None, SelectImage img1, ChangeCredential]))
     = created (run (mount None)
      [SubmitCredential ''good-key'', InitDone 0 None, SelectImage img1, ChangeCredential])"
proof -
  have c: "created (run ready_world
      [SelectImage img1, SelectImage img2, ReselectImage, SelectImage img1, StartGeneration])
     = [''blob:'', ''blob:u'', ''blob:uu'']" by code_simp
  have r: "revoked (run ready_world
      [SelectImage img1, SelectImage img2, ReselectImage, SelectImage img1, StartGeneration])
     = [''blob:'', ''blob:u'']" by code_simp
  have u: "revoked (unmount (run ready_world
      [SelectImage img1, SelectImage img2, ReselectImage, SelectImage img1, StartGeneration]))
     = [''blob:'', ''blob:u'', ''blob:uu'']" by code_simp
  show ?thesis
    using c r u C8_previews_released_once [of None
      "[SubmitCredential ''good-key'', InitDone 0 None, SelectImage img1, ChangeCredential]"]
    by blast
qed

section \<open>Reselecting\<close>

text \<open>
  C9, as the code has it. \<^verbatim>\<open>handleReselectImage\<close> twice in a row leaves the state that
  one call leaves, from every state. From phase \<open>Ready\<close> it changes nothing but the
  five fields it clears (file, preview, the two parts of the result, error message),
  and it changes nothing at all when these are already empty. The error message can be
  set in \<open>Ready\<close>, and is then cleared.
\<close>

theorem C9_reselect_idempotent:
  "step (step w ReselectImage) ReselectImage = step w ReselectImage
   \<and> (session_phase (app w) = Ready \<longrightarrow>
        step w ReselectImage =
          w\<lparr>app := (app w)\<lparr>uploadedImageFile := None, uploadedImagePreview := None,
                           generatedImageUrl := None, generatedPrompt := None, error := None\<rparr>\<rparr>)
   \<and> (session_phase (app w) = Ready \<and> uploadedImageFile (app w) = None
        \<and> uploadedImagePreview (app w) = None \<and> generatedImageUrl (app w) = None
        \<and> generatedPrompt (app w) = None \<and> error (app w) = None \<longrightarrow>
        step w ReselectImage = w)"
proof (intro conjI impI)
  show "step (step w ReselectImage) ReselectImage = step w ReselectImage"
    by (simp add: step_def handleReselectImage_def rerender_def preview_cleanup_def
        split: option.split)
next
  assume "session_phase (app w) = Ready"
  then show "step w ReselectImage =
          w\<lparr>app := (app w)\<lparr>uploadedImageFile := None, uploadedImagePreview := None,
                           generatedImageUrl := None, generatedPrompt := None, error := None\<rparr>\<rparr>"
    by (auto simp add: phase_simps step_def handleReselectImage_def rerender_def
        preview_cleanup_def truthy_def split: option.splits)
next
  assume "session_phase (app w) = Ready \<and> uploadedImageFile (app w) = None
        \<and> uploadedImagePreview (app w) = None \<and> generatedImageUrl (app w) = None
        \<and> generatedPrompt (app w) = None \<and> error (app w) = None"
  then show "step w ReselectImage = w"
    by (simp add: phase_simps step_def handleReselectImage_def rerender_def)
qed

theorem C9_reselect_idempotent_witness:
  "session_phase (app ready_world) = Ready
   \<and> uploadedImageFile (app ready_world) = None
   \<and> error (app ready_world) = None
   \<and> step ready_world ReselectImage = ready_world
   \<and> step (step encoding_world ReselectImage) ReselectImage = step encoding_world ReselectImage"
proof -
  have h: "session_phase (app ready_world) = Ready \<and> uploadedImageFile (app ready_world) = None
        \<and> uploadedImagePreview (app ready_world) = None
        \<and> generatedImageUrl (app ready_world) = None
        \<and> generatedPrompt (app ready_world) = None \<and> error (app ready_world) = None"
    by code_simp
  show ?thesis
    using h C9_reselect_idempotent [of ready_world] C9_reselect_idempotent [of encoding_world]
    by blast
qed

text \<open>
  A session in phase \<open>Ready\<close> whose error message was set by a generation started
  without an image: reselecting clears the message, so it is not without effect.
\<close>

theorem C9_ready_with_error_counterexample:
  "session_phase (app (step ready_world StartGeneration)) = Ready
   \<and> error (app (step ready_world StartGeneration)) = Some ''Please upload an image first.''
   \<and> step (step ready_world StartGeneration) ReselectImage \<noteq> step ready_world StartGeneration
   \<and> error (app (step (step ready_world StartGeneration) ReselectImage)) = None"
  by code_simp

end
